theory Spec2Isabelle
  imports Complex_Main
begin

section \<open>JavaScript numbers\<close>

text \<open>
  The component computes with JavaScript numbers. Division by zero does not fault there:
  it yields an infinity or NaN, and NaN then propagates through \<open>Math.floor\<close>,
  \<open>Math.min\<close> and every comparison. These non-finite values decide what the histogram
  does on degenerate input, so they are part of the model. Finite values are idealised as
  reals: rounding, overflow and the sign of zero are not modelled (every zero divisor that
  occurs in this program is the difference \<open>x - x\<close> or a count, which is \<open>+0\<close>).
\<close>

datatype jsnum = Num real | PInf | NInf | NaN

fun js_neg :: "jsnum \<Rightarrow> jsnum" where
  "js_neg (Num a) = Num (- a)"
| "js_neg PInf = NInf"
| "js_neg NInf = PInf"
| "js_neg NaN = NaN"

fun js_add :: "jsnum \<Rightarrow> jsnum \<Rightarrow> jsnum" where
  "js_add (Num a) (Num b) = Num (a + b)"
| "js_add NaN _ = NaN"
| "js_add _ NaN = NaN"
| "js_add PInf NInf = NaN"
| "js_add NInf PInf = NaN"
| "js_add PInf _ = PInf"
| "js_add _ PInf = PInf"
| "js_add NInf _ = NInf"
| "js_add _ NInf = NInf"

definition js_sub :: "jsnum \<Rightarrow> jsnum \<Rightarrow> jsnum" where
  "js_sub a b = js_add a (js_neg b)"

fun js_mul :: "jsnum \<Rightarrow> jsnum \<Rightarrow> jsnum" where
  "js_mul (Num a) (Num b) = Num (a * b)"
| "js_mul NaN _ = NaN"
| "js_mul _ NaN = NaN"
| "js_mul (Num a) PInf = (if a = 0 then NaN else if 0 < a then PInf else NInf)"
| "js_mul (Num a) NInf = (if a = 0 then NaN else if 0 < a then NInf else PInf)"
| "js_mul PInf (Num b) = (if b = 0 then NaN else if 0 < b then PInf else NInf)"
| "js_mul NInf (Num b) = (if b = 0 then NaN else if 0 < b then NInf else PInf)"
| "js_mul PInf PInf = PInf"
| "js_mul NInf NInf = PInf"
| "js_mul PInf NInf = NInf"
| "js_mul NInf PInf = NInf"

fun js_div :: "jsnum \<Rightarrow> jsnum \<Rightarrow> jsnum" where
  "js_div (Num a) (Num b) =
     (if b \<noteq> 0 then Num (a / b)
      else if a = 0 then NaN
      else if 0 < a then PInf else NInf)"
| "js_div NaN _ = NaN"
| "js_div _ NaN = NaN"
| "js_div (Num a) _ = Num 0"
| "js_div PInf (Num b) = (if 0 \<le> b then PInf else NInf)"
| "js_div NInf (Num b) = (if 0 \<le> b then NInf else PInf)"
| "js_div PInf PInf = NaN"
| "js_div PInf NInf = NaN"
| "js_div NInf PInf = NaN"
| "js_div NInf NInf = NaN"

text \<open>\<open>Math.floor\<close>: the infinities and NaN are returned as they are.\<close>

fun Math_floor :: "jsnum \<Rightarrow> jsnum" where
  "Math_floor (Num a) = Num (of_int \<lfloor>a\<rfloor>)"
| "Math_floor x = x"

text \<open>\<open>Math.min\<close> and \<open>Math.max\<close> of two arguments: NaN if either is NaN.\<close>

fun js_min :: "jsnum \<Rightarrow> jsnum \<Rightarrow> jsnum" where
  "js_min (Num a) (Num b) = Num (min a b)"
| "js_min NaN _ = NaN"
| "js_min _ NaN = NaN"
| "js_min NInf _ = NInf"
| "js_min _ NInf = NInf"
| "js_min PInf y = y"
| "js_min x PInf = x"

fun js_max :: "jsnum \<Rightarrow> jsnum \<Rightarrow> jsnum" where
  "js_max (Num a) (Num b) = Num (max a b)"
| "js_max NaN _ = NaN"
| "js_max _ NaN = NaN"
| "js_max PInf _ = PInf"
| "js_max _ PInf = PInf"
| "js_max NInf y = y"
| "js_max x NInf = x"

text \<open>
  \<open>Math.min(...xs)\<close> and \<open>Math.max(...xs)\<close> on a spread array: with no argument they
  are \<open>Infinity\<close> and \<open>-Infinity\<close>.
\<close>

definition Math_min :: "jsnum list \<Rightarrow> jsnum" where
  "Math_min xs = foldl js_min PInf xs"

definition Math_max :: "jsnum list \<Rightarrow> jsnum" where
  "Math_max xs = foldl js_max NInf xs"

text \<open>The comparison \<open>a <= b\<close>: false as soon as one side is NaN.\<close>

fun js_le :: "jsnum \<Rightarrow> jsnum \<Rightarrow> bool" where
  "js_le (Num a) (Num b) = (a \<le> b)"
| "js_le NaN _ = False"
| "js_le _ NaN = False"
| "js_le NInf _ = True"
| "js_le _ PInf = True"
| "js_le (Num a) NInf = False"
| "js_le PInf _ = False"

section \<open>The simulation result\<close>

text \<open>
  Modelled from the spec: the type \<open>SimulationResult\<close> is declared in the module
  \<open>@/utils/algorithms\<close>, which is not part of the sources at hand. The data model gives it
  the fields below: \<open>durations\<close> a sequence of real numbers, the two counts integers,
  \<open>probability\<close> and \<open>threshold\<close> real numbers.
\<close>

record SimulationResult =
  durations :: "real list"
  successCount :: int
  totalTrials :: int
  probability :: real
  threshold :: real

section \<open>Histogram binning\<close>

text \<open>
  One entry of the array returned by \<open>getHistogramData\<close>. The source renders the label
  \<open>range\<close> as the string \<open>binStart.toFixed(1) - binEnd.toFixed(1)\<close>; the model keeps the
  two numbers behind that string.
\<close>

record bin =
  rangeStart :: jsnum
  rangeEnd :: jsnum
  count :: nat
  percentage :: jsnum
  isSuccess :: bool

text \<open>
  The index expression of the \<open>forEach\<close> body:
  \<open>Math.min(Math.floor((duration - minDuration) / binSize), numBins - 1)\<close> with
  \<open>numBins = 10\<close>.
\<close>

definition binIndex :: "jsnum \<Rightarrow> jsnum \<Rightarrow> jsnum \<Rightarrow> jsnum" where
  "binIndex dMin binSize duration =
     js_min (Math_floor (js_div (js_sub duration dMin) binSize)) (Num 9)"

text \<open>
  The statement \<open>bins[binIndex]++\<close>. A number that is an integer within the array's bounds
  names an element, which is incremented. Any other value (NaN, a negative or fractional
  number) is a property key and not an element: the write creates a property of that name
  and no element changes. An integer beyond the bounds would extend the array; that cannot
  happen here, since \<open>binIndex\<close> is clamped to 9 (lemma \<open>binIndex_below_numBins\<close>).
\<close>

definition increment :: "nat list \<Rightarrow> jsnum \<Rightarrow> nat list" where
  "increment bins k =
     (case k of
        Num x \<Rightarrow>
          if 0 \<le> x \<and> x = of_int \<lfloor>x\<rfloor> \<and> nat \<lfloor>x\<rfloor> < length bins
          then bins[nat \<lfloor>x\<rfloor> := bins ! nat \<lfloor>x\<rfloor> + 1]
          else bins
      | _ \<Rightarrow> bins)"

text \<open>The \<open>forEach\<close> loop over \<open>result.durations\<close>, starting from \<open>Array(10).fill(0)\<close>.\<close>

definition binCounts :: "jsnum \<Rightarrow> jsnum \<Rightarrow> real list \<Rightarrow> nat list" where
  "binCounts dMin binSize ds =
     foldl (\<lambda>bins duration. increment bins (binIndex dMin binSize (Num duration)))
       (replicate 10 0) ds"

text \<open>The callback of \<open>bins.map\<close>, for the element \<open>count\<close> at position \<open>index\<close>.\<close>

definition mkBin :: "SimulationResult \<Rightarrow> jsnum \<Rightarrow> jsnum \<Rightarrow> nat \<Rightarrow> nat \<Rightarrow> bin" where
  "mkBin r dMin binSize cnt index =
     (let binStart = js_add dMin (js_mul (Num (real index)) binSize);
          binEnd = js_add binStart binSize
      in \<lparr> rangeStart = binStart,
           rangeEnd = binEnd,
           count = cnt,
           percentage = js_mul (js_div (Num (real cnt)) (Num (real_of_int (totalTrials r)))) (Num 100),
           isSuccess = js_le binEnd (Num (threshold r)) \<rparr>)"

definition getHistogramData :: "SimulationResult option \<Rightarrow> bin list" where
  "getHistogramData result =
     (case result of
        None \<Rightarrow> []
      | Some r \<Rightarrow>
          let dMin = Math_min (map Num (durations r));
              dMax = Math_max (map Num (durations r));
              rng = js_sub dMax dMin;
              binSize = js_div rng (Num 10);
              bins = binCounts dMin binSize (durations r)
          in map (\<lambda>(cnt, index). mkBin r dMin binSize cnt index) (zip bins [0..<length bins]))"

section \<open>The qualitative interpretation\<close>

text \<open>
  The interpretation tab renders one of three boxes, chosen by the nested conditional
  \<open>result.probability >= 0.8 ? ... : result.probability >= 0.5 ? ... : ...\<close>.
\<close>

datatype band = High | Moderate | Low

definition interpretationBand :: "SimulationResult \<Rightarrow> band" where
  "interpretationBand r =
     (if probability r \<ge> 0.8 then High
      else if probability r \<ge> 0.5 then Moderate
      else Low)"

section \<open>The component's state\<close>

record Task =
  name :: string
  minDuration :: real
  maxDuration :: real

definition DEFAULT_TASK_A :: Task where
  "DEFAULT_TASK_A = \<lparr> name = ''Task A'', minDuration = 2, maxDuration = 4 \<rparr>"

definition DEFAULT_TASK_B :: Task where
  "DEFAULT_TASK_B = \<lparr> name = ''Task B'', minDuration = 3, maxDuration = 6 \<rparr>"

definition DEFAULT_AVAILABLE_HOURS :: real where
  "DEFAULT_AVAILABLE_HOURS = 8"

definition DEFAULT_TRIALS :: int where
  "DEFAULT_TRIALS = 1000"


text \<open>
  What the callback passed to \<open>setInterval\<close> closes over: the inputs of the render in
  which \<open>runSimulation\<close> was called.
\<close>

record captured =
  cTaskA :: Task
  cTaskB :: Task
  cAvailableHours :: real
  cTrials :: int

text \<open>
  The eight \<open>useState\<close> cells of \<open>MonteCarloSimulator\<close>, followed by what the
  component's effects act on: the intervals that are set and not yet cleared (each with
  the values its callback captured), the next interval id, the state of the random
  generator, and a log of the calls made to the engine with their arguments.

  The input cells hold finite numbers: the duration and hours fields are set to
  \<open>parseFloat(e.target.value) || 0\<close>, which is never NaN, and \<open>trials\<close> is set by a
  slider with step 100, so it is an integer.
\<close>

record 'g component =
  taskA :: Task
  taskB :: Task
  availableHours :: real
  trials :: int
  inputError :: string
  result :: "SimulationResult option"
  isAnimating :: bool
  animationProgress :: nat
  intervals :: "(nat \<times> captured) list"
  nextInterval :: nat
  random :: 'g
  engineCalls :: "(Task \<times> Task \<times> real \<times> int) list"

definition initialState :: "'g \<Rightarrow> 'g component" where
  "initialState g =
     \<lparr> taskA = DEFAULT_TASK_A, taskB = DEFAULT_TASK_B,
       availableHours = DEFAULT_AVAILABLE_HOURS, trials = DEFAULT_TRIALS,
       inputError = [], result = None, isAnimating = False, animationProgress = 0,
       intervals = [], nextInterval = 0, random = g, engineCalls = [] \<rparr>"

text \<open>
  \<open>validateInputs\<close>: the checks in the source's order; each failing check stores its
  message in \<open>inputError\<close> and returns false, and success clears the message.
\<close>

definition validateInputs :: "'g component \<Rightarrow> bool \<times> 'g component" where
  "validateInputs s =
     (if minDuration (taskA s) < 0 \<or> maxDuration (taskA s) < 0 then
        (False, s\<lparr>inputError := ''Task A durations must be positive''\<rparr>)
      else if minDuration (taskB s) < 0 \<or> maxDuration (taskB s) < 0 then
        (False, s\<lparr>inputError := ''Task B durations must be positive''\<rparr>)
      else if minDuration (taskA s) > maxDuration (taskA s) then
        (False, s\<lparr>inputError := ''Task A minimum duration must be less than or equal to maximum''\<rparr>)
      else if minDuration (taskB s) > maxDuration (taskB s) then
        (False, s\<lparr>inputError := ''Task B minimum duration must be less than or equal to maximum''\<rparr>)
      else if availableHours s \<le> 0 then
        (False, s\<lparr>inputError := ''Available hours must be positive''\<rparr>)
      else if trials s < 100 \<or> trials s > 10000 then
        (False, s\<lparr>inputError := ''Number of trials must be between 100 and 10,000''\<rparr>)
      else (True, s\<lparr>inputError := []\<rparr>))"

text \<open>
  \<open>runSimulation\<close>: returns at once when validation fails. Otherwise it switches the
  animation on, resets the progress and sets an interval of 50 ms. It does not call the
  engine: that call is in the interval's callback.
\<close>

definition runSimulation :: "'g component \<Rightarrow> 'g component" where
  "runSimulation s =
     (case validateInputs s of
        (ok, s1) \<Rightarrow>
          if \<not> ok then s1
          else s1\<lparr> isAnimating := True,
                  animationProgress := 0,
                  intervals := intervals s1 @
                    [(nextInterval s1,
                      \<lparr> cTaskA = taskA s, cTaskB = taskB s,
                        cAvailableHours = availableHours s, cTrials = trials s \<rparr>)],
                  nextInterval := nextInterval s1 + 1 \<rparr>)"



section \<open>The binning rule in the specification's words\<close>

text \<open>
  The specification states the binning over the reals: \<open>minD = min(durations)\<close>,
  \<open>maxD = max(durations)\<close>, \<open>binSize = (maxD - minD) / numBins\<close> and
  \<open>binIndex = min(floor((sample - minD) / binSize), numBins - 1)\<close>, with ten bins. These
  definitions follow those words, to be compared with what \<open>getHistogramData\<close> computes.
  The quotient is HOL's total division, so \<open>specBinIndex\<close> says nothing useful
  where \<open>specBinSize\<close> is 0.
\<close>

definition specBinSize :: "real list \<Rightarrow> real" where
  "specBinSize ds = (Max (set ds) - Min (set ds)) / 10"


section \<open>A stand-in engine for concrete runs\<close>


section \<open>Facts about the number model\<close>

lemma js_sub_Num: "js_sub (Num a) (Num b) = Num (a - b)"
  by (simp add: js_sub_def)

lemma foldl_js_min_Num: "foldl js_min (Num a) (map Num ds) = Num (fold min ds a)"
  by (induction ds arbitrary: a) (simp_all add: min.commute)

lemma foldl_js_max_Num: "foldl js_max (Num a) (map Num ds) = Num (fold max ds a)"
  by (induction ds arbitrary: a) (simp_all add: max.commute)

lemma Math_min_Num: "ds \<noteq> [] \<Longrightarrow> Math_min (map Num ds) = Num (Min (set ds))"
proof (cases ds)
  case (Cons a list)
  then show ?thesis
    using Min.set_eq_fold [of a list] by (simp add: Math_min_def foldl_js_min_Num)
qed simp

lemma Math_max_Num: "ds \<noteq> [] \<Longrightarrow> Math_max (map Num ds) = Num (Max (set ds))"
proof (cases ds)
  case (Cons a list)
  then show ?thesis
    using Max.set_eq_fold [of a list] by (simp add: Math_max_def foldl_js_max_Num)
qed simp

section \<open>Facts about the binning loop\<close>

lemma binIndex_Num:
  "b \<noteq> 0 \<Longrightarrow> binIndex (Num m) (Num b) (Num d) = Num (of_int (min \<lfloor>(d - m) / b\<rfloor> 9))"
  by (simp add: binIndex_def js_sub_Num min_def)

lemma binIndex_degenerate: "binIndex (Num m) (Num 0) (Num m) = NaN"
  by (simp add: binIndex_def js_sub_Num)

lemma binIndex_below_numBins: "binIndex dMin binSize d = Num x \<Longrightarrow> x \<le> 9"
  unfolding binIndex_def
  by (cases "Math_floor (js_div (js_sub d dMin) binSize)") auto

lemma increment_NaN: "increment bins NaN = bins"
  by (simp add: increment_def)

lemma length_increment: "length (increment bins k) = length bins"
  by (simp add: increment_def split: jsnum.splits)

lemma increment_index:
  "0 \<le> k \<Longrightarrow> nat k < length bins \<Longrightarrow>
   increment bins (Num (of_int k)) = bins[nat k := bins ! nat k + 1]"
  by (simp add: increment_def)

lemma length_binCounts: "length (binCounts dMin binSize ds) = 10"
proof -
  have "length (foldl (\<lambda>bins duration. increment bins (binIndex dMin binSize (Num duration))) bs ds)
        = length bs" for bs
    by (induction ds arbitrary: bs) (simp_all add: length_increment)
  then show ?thesis by (simp add: binCounts_def)
qed

lemma increment_step:
  assumes "0 < b" "m \<le> d" "length bins = 10"
  shows "increment bins (binIndex (Num m) (Num b) (Num d))
         = bins[nat (min \<lfloor>(d - m) / b\<rfloor> 9) := bins ! nat (min \<lfloor>(d - m) / b\<rfloor> 9) + 1]"
    and "0 \<le> min \<lfloor>(d - m) / b\<rfloor> 9"
    and "nat (min \<lfloor>(d - m) / b\<rfloor> 9) < length bins"
proof -
  let ?j = "min \<lfloor>(d - m) / b\<rfloor> 9"
  from assms have "0 \<le> (d - m) / b" by simp
  then show j0: "0 \<le> ?j" by simp
  show j9: "nat ?j < length bins" using assms j0 by simp
  show "increment bins (binIndex (Num m) (Num b) (Num d)) = bins[nat ?j := bins ! nat ?j + 1]"
    using assms(1) increment_index [OF j0 j9] by (simp add: binIndex_Num)
qed


lemma foldl_increment_sum:
  assumes "0 < b" "\<forall>d\<in>set ds. m \<le> d" "length bins = 10"
  shows "sum_list (foldl (\<lambda>bins duration. increment bins (binIndex (Num m) (Num b) (Num duration))) bins ds)
         = sum_list bins + length ds"
  using assms
proof (induction ds arbitrary: bins)
  case Nil
  then show ?case by simp
next
  case (Cons d ds)
  let ?j = "min \<lfloor>(d - m) / b\<rfloor> 9"
  let ?bins = "bins[nat ?j := bins ! nat ?j + 1]"
  from Cons.prems have md: "m \<le> d" by simp
  note st = increment_step [OF Cons.prems(1) md Cons.prems(3)]
  have "sum_list ?bins = sum_list bins + 1"
    using st(3) by (simp add: sum_list_update)
  then show ?case
    using Cons.IH [of ?bins] Cons.prems st(1) by simp
qed

lemma foldl_increment_degenerate:
  "\<forall>d\<in>set ds. d = m \<Longrightarrow>
   foldl (\<lambda>bins duration. increment bins (binIndex (Num m) (Num 0) (Num duration))) bins ds = bins"
  by (induction ds arbitrary: bins) (simp_all add: binIndex_degenerate increment_NaN)

section \<open>The shape of the histogram\<close>

lemma getHistogramData_nonempty:
  assumes "durations r \<noteq> []"
  shows "getHistogramData (Some r) =
         map (\<lambda>(cnt, index).
                mkBin r (Num (Min (set (durations r))))
                  (Num ((Max (set (durations r)) - Min (set (durations r))) / 10)) cnt index)
           (zip (binCounts (Num (Min (set (durations r))))
                   (Num ((Max (set (durations r)) - Min (set (durations r))) / 10)) (durations r))
                [0..<10])"
  using assms
  by (simp add: getHistogramData_def Let_def Math_min_Num Math_max_Num js_sub_Num length_binCounts)

lemma length_getHistogramData: "length (getHistogramData (Some r)) = 10"
  by (simp add: getHistogramData_def Let_def length_binCounts)

lemma map_count_getHistogramData:
  "durations r \<noteq> [] \<Longrightarrow>
   map count (getHistogramData (Some r)) =
   binCounts (Num (Min (set (durations r))))
     (Num ((Max (set (durations r)) - Min (set (durations r))) / 10)) (durations r)"
proof -
  assume ne: "durations r \<noteq> []"
  have "map count (map (\<lambda>(cnt, index). mkBin r a b cnt index) (zip cs [0..<length cs])) = cs" for a b cs
    by (rule nth_equalityI) (simp_all add: mkBin_def Let_def)
  from this [of _ _ "binCounts _ _ _"] show ?thesis
    using ne by (simp add: getHistogramData_nonempty length_binCounts)
qed

lemma nth_getHistogramData:
  assumes "durations r \<noteq> []" "i < 10"
  shows "getHistogramData (Some r) ! i =
         mkBin r (Num (Min (set (durations r))))
           (Num ((Max (set (durations r)) - Min (set (durations r))) / 10))
           (binCounts (Num (Min (set (durations r))))
                   (Num ((Max (set (durations r)) - Min (set (durations r))) / 10)) (durations r) ! i) i"
  using assms by (simp add: getHistogramData_nonempty length_binCounts)

text \<open>
  Away from the degenerate case the loop counts every sample once: the counts add up to
  the number of samples.
\<close>

lemma sum_counts_spread:
  assumes "durations r \<noteq> []" "Min (set (durations r)) < Max (set (durations r))"
  shows "sum_list (map count (getHistogramData (Some r))) = length (durations r)"
proof -
  have "\<forall>d\<in>set (durations r). Min (set (durations r)) \<le> d" by simp
  then show ?thesis
    using assms foldl_increment_sum [of "(Max (set (durations r)) - Min (set (durations r))) / 10"
        "durations r" "Min (set (durations r))" "replicate 10 0"]
    by (simp add: map_count_getHistogramData binCounts_def)
qed

text \<open>
  In the degenerate case every sample computes \<open>0 / 0\<close>, the index is NaN, and no
  element of \<open>bins\<close> is incremented.
\<close>

lemma counts_identical_durations:
  assumes "durations r \<noteq> []" "\<forall>d\<in>set (durations r). d = c"
  shows "map count (getHistogramData (Some r)) = replicate 10 0"
proof -
  from assms have "set (durations r) = {c}" by (cases "durations r") auto
  then have mm: "Min (set (durations r)) = c" "Max (set (durations r)) = c" by simp_all
  show ?thesis
    using assms foldl_increment_degenerate [of "durations r" c "replicate 10 0"]
    by (simp add: map_count_getHistogramData mm binCounts_def)
qed

section \<open>Facts about validation and the run\<close>

lemma validateInputs_fst:
  "fst (validateInputs s) =
   (\<not> (minDuration (taskA s) < 0 \<or> maxDuration (taskA s) < 0
      \<or> minDuration (taskB s) < 0 \<or> maxDuration (taskB s) < 0
      \<or> minDuration (taskA s) > maxDuration (taskA s)
      \<or> minDuration (taskB s) > maxDuration (taskB s)
      \<or> availableHours s \<le> 0
      \<or> trials s < 100 \<or> trials s > 10000))"
  by (simp add: validateInputs_def)

lemma validateInputs_snd:
  "snd (validateInputs s) = s\<lparr>inputError := inputError (snd (validateInputs s))\<rparr>"
  by (simp add: validateInputs_def)

lemma validateInputs_message:
  "\<not> fst (validateInputs s) \<Longrightarrow> inputError (snd (validateInputs s)) \<noteq> []"
  by (simp add: validateInputs_def split: if_splits)


lemma runSimulation_rejected:
  "\<not> fst (validateInputs s) \<Longrightarrow> runSimulation s = snd (validateInputs s)"
  by (cases "validateInputs s") (simp add: runSimulation_def)


section \<open>Facts about the bins\<close>

lemma mkBin_fields:
  "rangeStart (mkBin r (Num m) (Num b) cnt i) = Num (m + real i * b)"
  "rangeEnd (mkBin r (Num m) (Num b) cnt i) = Num (m + real i * b + b)"
  "count (mkBin r dMin binSize cnt i) = cnt"
  "percentage (mkBin r dMin binSize cnt i)
     = js_mul (js_div (Num (real cnt)) (Num (real_of_int (totalTrials r)))) (Num 100)"
  "isSuccess (mkBin r (Num m) (Num b) cnt i) = (m + real i * b + b \<le> threshold r)"
  by (simp_all add: mkBin_def Let_def)

lemma bin_nth_nonempty:
  assumes "durations r \<noteq> []" "i < 10"
  shows "rangeStart (getHistogramData (Some r) ! i)
           = Num (Min (set (durations r)) + real i * specBinSize (durations r))"
    and "rangeEnd (getHistogramData (Some r) ! i)
           = Num (Min (set (durations r)) + real i * specBinSize (durations r)
                  + specBinSize (durations r))"
    and "isSuccess (getHistogramData (Some r) ! i)
           = (Min (set (durations r)) + real i * specBinSize (durations r)
                + specBinSize (durations r) \<le> threshold r)"
  using assms by (simp_all add: nth_getHistogramData mkBin_fields specBinSize_def)

lemma isSuccess_empty:
  assumes "durations r = []" "i < 10"
  shows "\<not> isSuccess (getHistogramData (Some r) ! i)"
proof -
  have "getHistogramData (Some r) ! i = mkBin r PInf NInf 0 i"
    using assms
    by (simp add: getHistogramData_def Let_def Math_min_def Math_max_def js_sub_def
          length_binCounts binCounts_def)
  then show ?thesis by (simp add: mkBin_def Let_def)
qed

lemma specBinSize_nonneg: "ds \<noteq> [] \<Longrightarrow> 0 \<le> specBinSize ds"
  by (simp add: specBinSize_def)

lemma bin_in_histogram:
  assumes "b \<in> set (getHistogramData (Some r))"
  shows "\<exists>cnt i. b = mkBin r (Math_min (map Num (durations r)))
           (js_div (js_sub (Math_max (map Num (durations r))) (Math_min (map Num (durations r))))
              (Num 10)) cnt i"
proof -
  from assms obtain p where
    "b = (\<lambda>(cnt, index). mkBin r (Math_min (map Num (durations r)))
           (js_div (js_sub (Math_max (map Num (durations r))) (Math_min (map Num (durations r))))
              (Num 10)) cnt index) p"
    by (auto simp add: getHistogramData_def Let_def)
  then show ?thesis by (cases p) auto
qed

lemma sum_list_percentages:
  "sum_list (map (\<lambda>b. real (cnt b) / t * 100) xs) = real (sum_list (map cnt xs)) / t * 100"
  by (induction xs) (simp_all add: add_divide_distrib distrib_right)

lemma percentage_Num:
  assumes "b \<in> set (getHistogramData (Some r))" "totalTrials r \<noteq> 0"
  shows "percentage b = Num (real (count b) / real_of_int (totalTrials r) * 100)"
proof -
  from bin_in_histogram [OF assms(1)] obtain cnt i where
    "b = mkBin r (Math_min (map Num (durations r)))
           (js_div (js_sub (Math_max (map Num (durations r))) (Math_min (map Num (durations r))))
              (Num 10)) cnt i"
    by blast
  then show ?thesis using assms(2) by (simp add: mkBin_def Let_def)
qed

section \<open>Facts about the interval callback\<close>







section \<open>Claims about the histogram on degenerate input\<close>

text \<open>
  Claim C1. When all durations are identical, \<open>getHistogramData\<close> is to complete without a
  division-by-zero fault and to put every sample in bin 0. The code does complete: it
  returns ten bins. But the bin size is 0, every sample computes \<open>0 / 0\<close>, the index is
  NaN, and no bin counts anything. The run below has Task A and Task B both fixed at 5
  hours and 100 trials, so all 100 durations are 10: bin 0 holds 0 samples, not 100.
\<close>

theorem getHistogramData_identical_durations:
  "length (getHistogramData (Some \<lparr> durations = replicate 100 10, successCount = 0,
       totalTrials = 100, probability = 0, threshold = 8 \<rparr>)) = 10
   \<and> map count (getHistogramData (Some \<lparr> durations = replicate 100 10, successCount = 0,
       totalTrials = 100, probability = 0, threshold = 8 \<rparr>))
     = [0, 0, 0, 0, 0, 0, 0, 0, 0, 0]"
  by code_simp

text \<open>
  Claim C2. The counts of the ten bins are to add up to \<open>totalTrials\<close>. They do whenever
  the durations are not all equal (lemma \<open>sum_counts_spread\<close>). On three identical
  durations the counts add up to 0, not 3: the defect of claim C1.
\<close>

theorem getHistogramData_counts_sum_identical:
  "sum_list (map count (getHistogramData (Some \<lparr> durations = [2, 2, 2], successCount = 3,
       totalTrials = 3, probability = 1, threshold = 8 \<rparr>))) = 0"
  by code_simp

section \<open>Claims about validation\<close>

text \<open>
  Claim C3. \<open>validateInputs\<close> returns false if and only if a duration of task A or task B
  is negative, or the minimum exceeds the maximum for either task, or the available hours
  are at most 0, or the trial count is outside 100 to 10000; on every other input it
  returns true.
\<close>

theorem validateInputs_false_iff:
  "(fst (validateInputs s) = False) =
   (minDuration (taskA s) < 0 \<or> maxDuration (taskA s) < 0
      \<or> minDuration (taskB s) < 0 \<or> maxDuration (taskB s) < 0
      \<or> minDuration (taskA s) > maxDuration (taskA s)
      \<or> minDuration (taskB s) > maxDuration (taskB s)
      \<or> availableHours s \<le> 0
      \<or> trials s < 100 \<or> trials s > 10000)"
  by (simp add: validateInputs_fst)

theorem validateInputs_false_iff_witness:
  "fst (validateInputs ((initialState ())\<lparr>trials := 50\<rparr>)) = False
   \<and> fst (validateInputs (initialState ())) = True"
  using validateInputs_false_iff [of "(initialState ())\<lparr>trials := 50\<rparr>"]
        validateInputs_false_iff [of "initialState ()"]
  by (simp add: initialState_def DEFAULT_TASK_A_def DEFAULT_TASK_B_def
        DEFAULT_AVAILABLE_HOURS_def DEFAULT_TRIALS_def)

text \<open>
  Claim C4. On an input that violates a precondition, \<open>runSimulation\<close> reports the error,
  samples nothing, does not invoke the engine and produces no result. In the code the
  report is the message stored in \<open>inputError\<close>. The state that \<open>runSimulation\<close> returns
  is the state it was given with that message, which is not empty: the stored result, the
  random generator, the log of engine calls and the set of intervals are as before, so no
  callback is left behind that could call the engine later.
\<close>

theorem runSimulation_invalid_input:
  assumes "minDuration (taskA s) < 0 \<or> maxDuration (taskA s) < 0
      \<or> minDuration (taskB s) < 0 \<or> maxDuration (taskB s) < 0
      \<or> minDuration (taskA s) > maxDuration (taskA s)
      \<or> minDuration (taskB s) > maxDuration (taskB s)
      \<or> availableHours s \<le> 0
      \<or> trials s < 100 \<or> trials s > 10000"
  shows "inputError (runSimulation s) \<noteq> []
       \<and> runSimulation s = s\<lparr>inputError := inputError (runSimulation s)\<rparr>
       \<and> result (runSimulation s) = result s
       \<and> random (runSimulation s) = random s
       \<and> engineCalls (runSimulation s) = engineCalls s
       \<and> intervals (runSimulation s) = intervals s
       \<and> isAnimating (runSimulation s) = isAnimating s"
proof -
  from assms have rej: "\<not> fst (validateInputs s)"
    by (simp add: validateInputs_fst)
  have eq: "runSimulation s = snd (validateInputs s)"
    by (rule runSimulation_rejected [OF rej])
  define e where "e = inputError (runSimulation s)"
  have upd: "runSimulation s = s\<lparr>inputError := e\<rparr>"
    using validateInputs_snd [of s] by (simp add: eq e_def)
  have msg: "e \<noteq> []"
    using validateInputs_message [OF rej] by (simp add: eq e_def)
  have "inputError (runSimulation s) \<noteq> []"
    using msg by (simp add: e_def)
  moreover have "runSimulation s = s\<lparr>inputError := inputError (runSimulation s)\<rparr>"
    using upd by (simp add: e_def)
  moreover have "result (runSimulation s) = result s" by (simp add: upd)
  moreover have "random (runSimulation s) = random s" by (simp add: upd)
  moreover have "engineCalls (runSimulation s) = engineCalls s" by (simp add: upd)
  moreover have "intervals (runSimulation s) = intervals s" by (simp add: upd)
  moreover have "isAnimating (runSimulation s) = isAnimating s" by (simp add: upd)
  ultimately show ?thesis by blast
qed

theorem runSimulation_invalid_input_witness:
  "runSimulation ((initialState ())\<lparr>trials := 0\<rparr>)
     = (initialState ())\<lparr>trials := 0,
          inputError := ''Number of trials must be between 100 and 10,000''\<rparr>
   \<and> runSimulation
       ((initialState ())\<lparr>taskA := \<lparr>name = ''Task A'', minDuration = 5, maxDuration = 4\<rparr>\<rparr>)
     = (initialState ())\<lparr>taskA := \<lparr>name = ''Task A'', minDuration = 5, maxDuration = 4\<rparr>,
          inputError := ''Task A minimum duration must be less than or equal to maximum''\<rparr>"
  using runSimulation_invalid_input [of "(initialState ())\<lparr>trials := 0\<rparr>"]
        runSimulation_invalid_input
          [of "(initialState ())\<lparr>taskA := \<lparr>name = ''Task A'', minDuration = 5, maxDuration = 4\<rparr>\<rparr>"]
  by (simp add: initialState_def DEFAULT_TASK_A_def DEFAULT_TASK_B_def
        DEFAULT_AVAILABLE_HOURS_def DEFAULT_TRIALS_def runSimulation_def validateInputs_def)

section \<open>Claims about the interpretation\<close>

text \<open>
  Claim C8. The interpretation band depends on \<open>result.probability\<close> alone: at least 0.8
  gives the high band, at least 0.5 and below 0.8 the moderate band, below 0.5 the low
  band.
\<close>

theorem interpretationBand_bands:
  "(probability r \<ge> 0.8 \<longrightarrow> interpretationBand r = High)
   \<and> (0.5 \<le> probability r \<and> probability r < 0.8 \<longrightarrow> interpretationBand r = Moderate)
   \<and> (probability r < 0.5 \<longrightarrow> interpretationBand r = Low)
   \<and> (probability r = probability r' \<longrightarrow> interpretationBand r = interpretationBand r')"
  by (simp add: interpretationBand_def)

theorem interpretationBand_bands_witness:
  "interpretationBand \<lparr> durations = [5, 10], successCount = 9, totalTrials = 10,
      probability = 0.9, threshold = 8 \<rparr> = High
   \<and> interpretationBand \<lparr> durations = [5, 10], successCount = 6, totalTrials = 10,
      probability = 0.6, threshold = 8 \<rparr> = Moderate
   \<and> interpretationBand \<lparr> durations = [5, 10], successCount = 2, totalTrials = 10,
      probability = 0.2, threshold = 8 \<rparr> = Low
   \<and> interpretationBand \<lparr> durations = [1], successCount = 1, totalTrials = 1,
      probability = 0.9, threshold = 3 \<rparr>
     = interpretationBand \<lparr> durations = [5, 10], successCount = 9, totalTrials = 10,
      probability = 0.9, threshold = 8 \<rparr>"
  using
    interpretationBand_bands [of "\<lparr> durations = [5, 10], successCount = 9, totalTrials = 10,
      probability = 0.9, threshold = 8 \<rparr>" "\<lparr> durations = [1], successCount = 1,
      totalTrials = 1, probability = 0.9, threshold = 3 \<rparr>"]
    interpretationBand_bands [of "\<lparr> durations = [5, 10], successCount = 6, totalTrials = 10,
      probability = 0.6, threshold = 8 \<rparr>" "\<lparr> durations = [1], successCount = 1,
      totalTrials = 1, probability = 0.9, threshold = 3 \<rparr>"]
    interpretationBand_bands [of "\<lparr> durations = [5, 10], successCount = 2, totalTrials = 10,
      probability = 0.2, threshold = 8 \<rparr>" "\<lparr> durations = [1], successCount = 1,
      totalTrials = 1, probability = 0.9, threshold = 3 \<rparr>"]
  by auto

section \<open>Claims about the histogram in general\<close>






text \<open>
  Claim C7. Every bin reports the percentage \<open>count / totalTrials * 100\<close>. When
  \<open>totalTrials\<close> is positive, as the data model requires, and the counts add up to it,
  every percentage is a finite number and the percentages add up to 100 (exactly, in the
  real-number reading of the arithmetic).
\<close>

theorem percentage_of_count:
  "(\<forall>b \<in> set (getHistogramData (Some r)).
      percentage b
        = js_mul (js_div (Num (real (count b))) (Num (real_of_int (totalTrials r)))) (Num 100))
   \<and> (0 < totalTrials r
        \<and> int (sum_list (map count (getHistogramData (Some r)))) = totalTrials r
      \<longrightarrow> (\<exists>ps. map percentage (getHistogramData (Some r)) = map Num ps \<and> sum_list ps = 100))"
proof (intro conjI ballI impI)
  fix b
  assume "b \<in> set (getHistogramData (Some r))"
  from bin_in_histogram [OF this] obtain cnt i where
    "b = mkBin r (Math_min (map Num (durations r)))
           (js_div (js_sub (Math_max (map Num (durations r))) (Math_min (map Num (durations r))))
              (Num 10)) cnt i"
    by blast
  then show "percentage b
        = js_mul (js_div (Num (real (count b))) (Num (real_of_int (totalTrials r)))) (Num 100)"
    by (simp add: mkBin_def Let_def)
next
  let ?h = "getHistogramData (Some r)"
  let ?ps = "map (\<lambda>b. real (count b) / real_of_int (totalTrials r) * 100) ?h"
  assume a: "0 < totalTrials r \<and> int (sum_list (map count ?h)) = totalTrials r"
  then have t0: "totalTrials r \<noteq> 0" by simp
  have "map percentage ?h = map Num ?ps"
    using percentage_Num [OF _ t0] by simp
  moreover have "sum_list ?ps = 100"
  proof -
    have e: "real (sum_list (map count ?h)) = real_of_int (totalTrials r)"
      using a by (metis of_int_of_nat_eq)
    have "sum_list ?ps = real (sum_list (map count ?h)) / real_of_int (totalTrials r) * 100"
      by (rule sum_list_percentages)
    also have "\<dots> = 100" using t0 by (simp add: e)
    finally show ?thesis .
  qed
  ultimately show "\<exists>ps. map percentage ?h = map Num ps \<and> sum_list ps = 100" by blast
qed

theorem percentage_of_count_witness:
  "percentage (getHistogramData (Some \<lparr> durations = [5, 7.5, 10, 6], successCount = 3,
       totalTrials = 4, probability = 0.75, threshold = 8 \<rparr>) ! 0) = Num 25
   \<and> (\<exists>ps. map percentage (getHistogramData (Some \<lparr> durations = [5, 7.5, 10, 6],
          successCount = 3, totalTrials = 4, probability = 0.75, threshold = 8 \<rparr>)) = map Num ps
        \<and> sum_list ps = 100)"
proof -
  let ?r = "\<lparr> durations = [5, 7.5, 10, 6], successCount = 3,
       totalTrials = 4, probability = 0.75, threshold = (8::real) \<rparr>"
  have c: "map count (getHistogramData (Some ?r)) = [1, 0, 1, 0, 0, 1, 0, 0, 0, 1]"
    by code_simp
  have l: "length (getHistogramData (Some ?r)) = 10"
    by (rule length_getHistogramData)
  then have mem: "getHistogramData (Some ?r) ! 0 \<in> set (getHistogramData (Some ?r))"
    by simp
  have c0: "count (getHistogramData (Some ?r) ! 0) = 1"
    using arg_cong [OF c, of "\<lambda>xs. xs ! 0"] l by simp
  have s: "0 < totalTrials ?r \<and> int (sum_list (map count (getHistogramData (Some ?r)))) = totalTrials ?r"
    by code_simp
  from percentage_of_count [of ?r] mem s c0 show ?thesis by auto
qed

text \<open>
  Claim C10. The \<open>isSuccess\<close> flags form a prefix: once a bin is marked failing, every
  later bin is marked failing too, since the bin size is not negative and the end points
  do not decrease. This also holds for an empty durations sequence, where every end
  point is NaN and every bin is marked failing.
\<close>

theorem isSuccess_prefix:
  assumes "i < j" "j < 10" "\<not> isSuccess (getHistogramData (Some r) ! i)"
  shows "\<not> isSuccess (getHistogramData (Some r) ! j)"
proof (cases "durations r = []")
  case True
  then show ?thesis using assms(2) by (rule isSuccess_empty)
next
  case False
  let ?m = "Min (set (durations r))" and ?b = "specBinSize (durations r)"
  from assms have i10: "i < 10" by simp
  have b0: "0 \<le> ?b" using False by (rule specBinSize_nonneg)
  have "real i * ?b \<le> real j * ?b"
    using assms(1) b0 by (simp add: mult_right_mono)
  moreover have "\<not> ?m + real i * ?b + ?b \<le> threshold r"
    using assms(3) bin_nth_nonempty(3) [OF False i10] by simp
  ultimately have "\<not> ?m + real j * ?b + ?b \<le> threshold r" by linarith
  then show ?thesis using bin_nth_nonempty(3) [OF False assms(2)] by simp
qed

theorem isSuccess_prefix_witness:
  "map isSuccess (getHistogramData (Some \<lparr> durations = [5, 7.5, 10, 6], successCount = 3,
       totalTrials = 4, probability = 0.75, threshold = 8 \<rparr>))
     = [True, True, True, True, True, True, False, False, False, False]
   \<and> \<not> isSuccess (getHistogramData (Some \<lparr> durations = [5, 7.5, 10, 6], successCount = 3,
       totalTrials = 4, probability = 0.75, threshold = 8 \<rparr>) ! 9)"
proof -
  have m: "map isSuccess (getHistogramData (Some \<lparr> durations = [5, 7.5, 10, 6], successCount = 3,
       totalTrials = 4, probability = 0.75, threshold = 8 \<rparr>))
     = [True, True, True, True, True, True, False, False, False, False]"
    by code_simp
  have "length (getHistogramData (Some \<lparr> durations = [5, 7.5, 10, 6], successCount = 3,
       totalTrials = 4, probability = 0.75, threshold = 8 \<rparr>)) = 10"
    by (rule length_getHistogramData)
  then have "\<not> isSuccess (getHistogramData (Some \<lparr> durations = [5, 7.5, 10, 6], successCount = 3,
       totalTrials = 4, probability = 0.75, threshold = 8 \<rparr>) ! 6)"
    using arg_cong [OF m, of "\<lambda>xs. xs ! 6"] by simp
  then have "\<not> isSuccess (getHistogramData (Some \<lparr> durations = [5, 7.5, 10, 6], successCount = 3,
       totalTrials = 4, probability = 0.75, threshold = 8 \<rparr>) ! 9)"
    using isSuccess_prefix [of 6 9 "\<lparr> durations = [5, 7.5, 10, 6], successCount = 3,
       totalTrials = 4, probability = 0.75, threshold = 8 \<rparr>"] by simp
  with m show ?thesis by simp
qed

section \<open>Claims about the animation and the engine call\<close>




end
